theory Spec2Isabelle
  imports Complex_Main "HOL-Library.Sublist"
begin

section \<open>Python values\<close>

text \<open>
  A Python \<open>str\<close> is modelled as a \<open>string\<close>: one \<open>char\<close> stands for one character of
  the Python string, so \<open>length\<close> is Python's \<open>len\<close> and \<open>take\<close> is a slice from the start.

  The values held by the ledger are whatever \<open>json.load\<close> produced. \<open>JNull\<close> is Python's
  \<open>None\<close>, \<open>JFloat\<close> holds the value of a finite float; a dict keeps its items as an
  association list read with \<open>map_of\<close>.
\<close>

datatype json =
    JNull
  | JBool bool
  | JInt int
  | JFloat real
  | JStr string
  | JArray "json list"
  | JObject "(string \<times> json) list"

text \<open>
  A raised exception: its class name and \<open>str(e)\<close>. An \<open>OSError\<close>, of whatever subclass
  (\<open>FileNotFoundError\<close>, \<open>PermissionError\<close>, ...), also carries its \<open>errno\<close>.
\<close>

datatype exc =
    Exc (exc_class: string) (exc_str: string)
  | OSError (errno: nat) (exc_class: string) (exc_str: string)

text \<open>\<open>d.get(key)\<close> of a dict: the value, or \<open>None\<close> when the key is missing.\<close>

definition dict_get :: "(string \<times> json) list \<Rightarrow> string \<Rightarrow> json" where
  "dict_get d key = (case map_of d key of None \<Rightarrow> JNull | Some v \<Rightarrow> v)"

text \<open>\<open>d.get(key, default)\<close>.\<close>

definition dict_get_default :: "(string \<times> json) list \<Rightarrow> string \<Rightarrow> json \<Rightarrow> json" where
  "dict_get_default d key dflt = (case map_of d key of None \<Rightarrow> dflt | Some v \<Rightarrow> v)"

text \<open>
  \<open>d[key] = v\<close> on the items of a dict: the value of an existing key is replaced in
  place, a new key is added at the end.
\<close>

fun dict_set :: "(string \<times> json) list \<Rightarrow> string \<Rightarrow> json \<Rightarrow> (string \<times> json) list" where
  "dict_set [] key v = [(key, v)]"
| "dict_set ((k, w) # d) key v =
     (if k = key then (k, v) # d else (k, w) # dict_set d key v)"

text \<open>
  The three operations the code applies to the value \<open>json.load\<close> returned, with a string
  \<open>key\<close>, on any JSON value. \<open>key in obj\<close> is the key test of a dict, the element test of
  a list and the substring test of a string; \<open>None\<close>, a number and a boolean are not
  iterable.
\<close>

definition py_contains :: "json \<Rightarrow> string \<Rightarrow> exc + bool" where
  "py_contains obj key =
     (case obj of
        JObject items \<Rightarrow> Inr (key \<in> set (map fst items))
      | JArray xs \<Rightarrow> Inr (JStr key \<in> set xs)
      | JStr s \<Rightarrow> Inr (sublist key s)
      | _ \<Rightarrow> Inl (Exc ''TypeError'' ''argument is not iterable''))"

text \<open>\<open>obj[key]\<close>: a list and a string take no string as an index, the rest cannot be
  subscripted.\<close>

definition py_getitem :: "json \<Rightarrow> string \<Rightarrow> exc + json" where
  "py_getitem obj key =
     (case obj of
        JObject items \<Rightarrow>
          (case map_of items key of
             None \<Rightarrow> Inl (Exc ''KeyError'' key)
           | Some v \<Rightarrow> Inr v)
      | JArray xs \<Rightarrow> Inl (Exc ''TypeError'' ''list indices must be integers or slices, not str'')
      | JStr s \<Rightarrow> Inl (Exc ''TypeError'' ''string indices must be integers'')
      | _ \<Rightarrow> Inl (Exc ''TypeError'' ''object is not subscriptable''))"

text \<open>\<open>obj[key] = v\<close>: only a dict takes it.\<close>

definition py_setitem :: "json \<Rightarrow> string \<Rightarrow> json \<Rightarrow> exc + json" where
  "py_setitem obj key v =
     (case obj of
        JObject items \<Rightarrow> Inr (JObject (dict_set items key v))
      | JArray xs \<Rightarrow> Inl (Exc ''TypeError'' ''list indices must be integers or slices, not str'')
      | _ \<Rightarrow> Inl (Exc ''TypeError'' ''object does not support item assignment''))"

text \<open>
  The number a value denotes under Python's \<open>==\<close>: \<open>bool\<close> is a subclass of \<open>int\<close>, an
  \<open>int\<close> and a \<open>float\<close> are compared by their exact values, and nothing else equals a
  number.
\<close>

fun num_val :: "json \<Rightarrow> real option" where
  "num_val (JBool b) = Some (if b then 1 else 0)"
| "num_val (JInt i) = Some (of_int i)"
| "num_val (JFloat x) = Some x"
| "num_val _ = None"

text \<open>\<open>v == x\<close> for a value \<open>v\<close> read from JSON and a number \<open>x\<close>.\<close>

definition py_eq_num :: "json \<Rightarrow> real \<Rightarrow> bool" where
  "py_eq_num v x = (num_val v = Some x)"

section \<open>Files\<close>

text \<open>
  What \<open>os.stat\<close> reports for a path: whether it is a regular file, \<open>st_size\<close> and
  \<open>st_mtime\<close>. \<open>st_mtime\<close> is a float; the model keeps its value as a real number.
\<close>

record stat_result =
  st_isreg :: bool
  st_size :: int
  st_mtime :: real

text \<open>
  A \<open>Path\<close> together with what the file system holds there: the string \<open>str(p)\<close>, the
  outcome of \<open>p.stat()\<close> (a result or the exception raised), the bytes of the file, and
  the exception \<open>p.unlink()\<close> would raise, if any.
\<close>

record file_entry =
  path :: string
  stat :: "exc + stat_result"
  content :: string
  unlink_raises :: "exc option"

text \<open>
  \<open>Path.name\<close>: the final component of the path. The string is \<open>str(p)\<close> of a \<open>Path\<close>,
  so it is in the form \<open>pathlib\<close> keeps: components separated by one slash, none at the
  end.
\<close>

definition path_name :: "string \<Rightarrow> string" where
  "path_name p = rev (takeWhile (\<lambda>c. c \<noteq> CHR ''/'') (rev p))"

text \<open>
  \<open>Path.suffix\<close>: with \<open>i\<close> the index of the last dot of the name, the suffix is
  \<open>name[i:]\<close> when \<open>0 < i < len(name) - 1\<close> and the empty string otherwise.
\<close>

definition path_suffix :: "string \<Rightarrow> string" where
  "path_suffix p =
     (let name = path_name p;
          k = length (takeWhile (\<lambda>c. c \<noteq> CHR ''.'') (rev name))
      in if 0 < k \<and> Suc k < length name then drop (length name - Suc k) name else [])"

text \<open>
  \<open>str.lower()\<close>, on the ASCII letters. The results are only compared with the mapped
  extensions, and no other character becomes a letter of one of them in lower case.
\<close>

definition lower_char :: "char \<Rightarrow> char" where
  "lower_char c =
     (case map_of (zip ''ABCDEFGHIJKLMNOPQRSTUVWXYZ'' ''abcdefghijklmnopqrstuvwxyz'') c of
        None \<Rightarrow> c
      | Some l \<Rightarrow> l)"

definition lower :: "string \<Rightarrow> string" where
  "lower s = map lower_char s"

section \<open>The ledger of processed files (src/api/main.py)\<close>

text \<open>The dict built by \<open>get_file_info\<close>.\<close>

record file_info =
  size_info :: int
  modified :: real
  processed_at :: string

text \<open>
  \<open>tracking_data\<close> is whatever \<open>json.load\<close> returned: as the code writes it, a dict
  keyed by \<open>str(file_path)\<close>; as a file in the upload directory, any JSON value.
\<close>

definition info_json :: "file_info \<Rightarrow> json" where
  "info_json i =
     JObject [(''size'', JInt (size_info i)), (''modified'', JFloat (modified i)),
              (''processed_at'', JStr (processed_at i))]"

text \<open>
  \<open>get_file_info\<close>: \<open>file_path.stat()\<close> may raise; \<open>now\<close> is
  \<open>datetime.now().isoformat()\<close>.
\<close>

definition get_file_info :: "string \<Rightarrow> file_entry \<Rightarrow> exc + file_info" where
  "get_file_info now file_path =
     (case stat file_path of
        Inl e \<Rightarrow> Inl e
      | Inr st \<Rightarrow> Inr \<lparr>size_info = st_size st, modified = st_mtime st, processed_at = now\<rparr>)"

text \<open>
  \<open>is_file_processed\<close>. \<open>tracked_info.get\<close> raises \<open>AttributeError\<close> when the stored
  value is not a dict.
\<close>

definition is_file_processed :: "file_entry \<Rightarrow> file_info \<Rightarrow> json \<Rightarrow> exc + bool" where
  "is_file_processed file_path current_info tracking_data =
     (let file_key = path file_path in
      case py_contains tracking_data file_key of
        Inl e \<Rightarrow> Inl e
      | Inr present \<Rightarrow>
          if \<not> present then Inr False
          else
            (case py_getitem tracking_data file_key of
               Inl e \<Rightarrow> Inl e
             | Inr tracked_info \<Rightarrow>
                 (case tracked_info of
                    JObject d \<Rightarrow>
                      Inr (py_eq_num (dict_get d ''size'') (of_int (size_info current_info)) \<and>
                           py_eq_num (dict_get d ''modified'') (modified current_info))
                  | _ \<Rightarrow> Inl (Exc ''AttributeError'' ''object has no attribute get''))))"

section \<open>The library calls and the tracking file (src/api/main.py)\<close>

text \<open>
  The tracking file \<open>.processed_files.json\<close>: it does not exist; or \<open>exists()\<close> itself
  raises (\<open>stat\<close> fails with an error other than "not there", as on a directory that may
  not be searched); or it exists and \<open>open\<close> raises; or it exists and holds a text.
\<close>

datatype tracking_file = Absent | ExistsRaises exc | Unreadable exc | Holds string

text \<open>
  The library calls the repository makes, as parameters: each returns its result or the
  exception it raises.
  \<^item> \<open>json_load\<close>, \<open>json_dump\<close>: \<open>json.load\<close> and \<open>json.dump\<close> on the text of a file;
    \<open>json.load\<close> returns any JSON value, not only a dict;
  \<^item> \<open>loader_load\<close>: \<open>loader_class(...).load()\<close>, given the loader and the bytes of the file;
  \<^item> \<open>text_splitter_init\<close>: the exception raised by building the default
    \<open>RecursiveCharacterTextSplitter\<close>, if any;
  \<^item> \<open>markdown_split\<close>, \<open>default_split\<close>: \<open>split_documents([doc])\<close> of the two splitters;
  \<^item> \<open>store_add_raises\<close>, \<open>store_from_raises\<close>, \<open>store_save_raises\<close>: the exception raised
    by the vector store's \<open>add_documents\<close>, by \<open>FAISS.from_documents\<close> and by
    \<open>save_local\<close>, if any; a call that does not raise stores the documents;
  \<^item> \<open>isoformat_now\<close>: \<open>datetime.now().isoformat()\<close> at the moment the file with the
    given path is looked at;
  \<^item> \<open>tracking_write_raises\<close>: the exception raised by writing the tracking file, if any.
\<close>

datatype loader_class =
  PyPDFLoader | TextLoader | Docx2txtLoader | UnstructuredMarkdownLoader | CSVLoader | JSONLoader

record loader =
  loader_cls :: loader_class
  loader_path :: string
  jq_schema :: "string option"
  text_content :: "bool option"

record document =
  page_content :: string
  metadata :: "(string \<times> json) list"

record library =
  json_load :: "string \<Rightarrow> exc + json"
  json_dump :: "json \<Rightarrow> string"
  loader_load :: "loader \<Rightarrow> string \<Rightarrow> exc + document list"
  text_splitter_init :: "exc option"
  markdown_split :: "document \<Rightarrow> exc + document list"
  default_split :: "document \<Rightarrow> exc + document list"
  store_add_raises :: "document list \<Rightarrow> exc option"
  store_from_raises :: "document list \<Rightarrow> exc option"
  store_save_raises :: "exc option"
  isoformat_now :: "string \<Rightarrow> string"
  tracking_write_raises :: "exc option"

text \<open>\<open>tracking_file.exists()\<close>.\<close>

definition tracking_file_exists :: "tracking_file \<Rightarrow> exc + bool" where
  "tracking_file_exists tracking_file =
     (case tracking_file of
        Absent \<Rightarrow> Inr False
      | ExistsRaises e \<Rightarrow> Inl e
      | Unreadable e \<Rightarrow> Inr True
      | Holds text \<Rightarrow> Inr True)"

text \<open>
  \<open>load_processed_files_tracking\<close>. \<open>exists()\<close> is called outside the \<open>try\<close>, so what it
  raises leaves the function. The body of the \<open>try\<close> is \<open>read_tracking\<close>; the handler
  \<open>except Exception: return {}\<close> replaces whatever that raises.
\<close>

definition read_tracking :: "library \<Rightarrow> tracking_file \<Rightarrow> exc + json" where
  "read_tracking lib tracking_file =
     (case tracking_file of
        Absent \<Rightarrow> Inl (OSError 2 ''FileNotFoundError'' ''No such file or directory'')
      | ExistsRaises e \<Rightarrow> Inl e
      | Unreadable e \<Rightarrow> Inl e
      | Holds text \<Rightarrow> json_load lib text)"

definition load_processed_files_tracking :: "library \<Rightarrow> tracking_file \<Rightarrow> exc + json" where
  "load_processed_files_tracking lib tracking_file =
     (case tracking_file_exists tracking_file of
        Inl e \<Rightarrow> Inl e
      | Inr present \<Rightarrow>
          if present then
            (case read_tracking lib tracking_file of
               Inr data \<Rightarrow> Inr data
             | Inl e \<Rightarrow> Inr (JObject []))
          else Inr (JObject []))"

text \<open>\<open>save_processed_files_tracking\<close>: a failure to write is printed and swallowed.\<close>

definition save_processed_files_tracking ::
    "library \<Rightarrow> tracking_file \<Rightarrow> json \<Rightarrow> tracking_file" where
  "save_processed_files_tracking lib tracking_file tracking_data =
     (case tracking_write_raises lib of
        None \<Rightarrow> Holds (json_dump lib tracking_data)
      | Some e \<Rightarrow> tracking_file)"

section \<open>Retention cleanup (src/utils/file_cleanup.py)\<close>

text \<open>
  The errors of \<open>stat\<close> that \<open>pathlib\<close> (of Python 3.11, as for \<open>Path.suffix\<close> above and
  \<open>exists()\<close> below) takes as "not there": an \<open>OSError\<close> whose \<open>errno\<close>
  is \<open>ENOENT\<close> (2), \<open>ENOTDIR\<close> (20), \<open>EBADF\<close> (9) or \<open>ELOOP\<close> (40), and a \<open>ValueError\<close>
  (a path that cannot be handed to the system).
\<close>

definition ignored_error :: "exc \<Rightarrow> bool" where
  "ignored_error e =
     (case e of
        OSError n c s \<Rightarrow> n \<in> set [2, 20, 9, 40]
      | Exc c s \<Rightarrow> c \<in> set [''ValueError'', ''UnicodeEncodeError''])"

text \<open>
  \<open>Path.is_file()\<close>: whether \<open>stat\<close> reports a regular file; \<open>False\<close> when \<open>stat\<close> fails
  with one of the ignored errors (the path does not exist, is a broken or a looping
  link); any other error of \<open>stat\<close> is raised.
\<close>

definition is_file :: "file_entry \<Rightarrow> exc + bool" where
  "is_file p =
     (case stat p of
        Inr st \<Rightarrow> Inr (st_isreg st)
      | Inl e \<Rightarrow> if ignored_error e then Inr False else Inl e)"

text \<open>
  The loop of \<open>cleanup_old_files\<close> over \<open>upload_dir.glob("*")\<close>. It returns the paths
  appended to \<open>deleted_files\<close> and the entries left in the directory. An exception of
  \<open>is_file\<close> or \<open>stat\<close> reaches the outer handler, which ends the loop; an exception of
  \<open>unlink\<close> is logged by the inner handler and the loop goes on.
\<close>

fun cleanup_loop :: "real \<Rightarrow> file_entry list \<Rightarrow> string list \<times> file_entry list" where
  "cleanup_loop cutoff_time [] = ([], [])"
| "cleanup_loop cutoff_time (file_path # rest) =
     (case is_file file_path of
        Inl e \<Rightarrow> ([], file_path # rest)
      | Inr False \<Rightarrow>
          (case cleanup_loop cutoff_time rest of (deleted, kept) \<Rightarrow> (deleted, file_path # kept))
      | Inr True \<Rightarrow>
          (case stat file_path of
             Inl e \<Rightarrow> ([], file_path # rest)
           | Inr st \<Rightarrow>
               (let file_age = st_mtime st in
                if file_age < cutoff_time then
                  (case unlink_raises file_path of
                     None \<Rightarrow>
                       (case cleanup_loop cutoff_time rest of
                          (deleted, kept) \<Rightarrow> (path file_path # deleted, kept))
                   | Some e \<Rightarrow>
                       (case cleanup_loop cutoff_time rest of
                          (deleted, kept) \<Rightarrow> (deleted, file_path # kept)))
                else
                  (case cleanup_loop cutoff_time rest of
                     (deleted, kept) \<Rightarrow> (deleted, file_path # kept)))))"

text \<open>
  \<open>cleanup_old_files\<close>, given \<open>time.time()\<close> and the entries of the upload directory in
  the order \<open>glob\<close> yields them. The float subtraction is taken as exact.
\<close>

definition cleanup_old_files ::
    "int \<Rightarrow> real \<Rightarrow> file_entry list \<Rightarrow> string list \<times> file_entry list" where
  "cleanup_old_files retention_days current_time upload_dir =
     (let cutoff_time = current_time - of_int (retention_days * 86400)
      in cleanup_loop cutoff_time upload_dir)"

text \<open>
  The files the retention rule is about: a regular file whose modification time is
  before the cutoff, that is, older than \<open>retention_days\<close> days at \<open>current_time\<close>.
\<close>

definition stale :: "real \<Rightarrow> file_entry \<Rightarrow> bool" where
  "stale cutoff_time f =
     (case stat f of
        Inr st \<Rightarrow> st_isreg st \<and> st_mtime st < cutoff_time
      | Inl e \<Rightarrow> False)"

definition expired :: "int \<Rightarrow> real \<Rightarrow> file_entry \<Rightarrow> bool" where
  "expired retention_days current_time f =
     stale (current_time - of_int (retention_days * 86400)) f"

section \<open>Loading and splitting documents (src/core)\<close>

text \<open>\<open>LangChainDocumentProcessor.loader_mapping\<close>.\<close>

definition loader_mapping :: "(string \<times> loader_class) list" where
  "loader_mapping =
     [(''.pdf'', PyPDFLoader), (''.txt'', TextLoader), (''.docx'', Docx2txtLoader),
      (''.doc'', Docx2txtLoader), (''.md'', UnstructuredMarkdownLoader),
      (''.csv'', CSVLoader), (''.json'', JSONLoader)]"

text \<open>\<open>LangChainDocumentProcessor._load_single_file\<close>.\<close>

definition load_single_file :: "library \<Rightarrow> file_entry \<Rightarrow> exc + document list" where
  "load_single_file lib file_path =
     (let file_extension = lower (path_suffix (path file_path)) in
      case map_of loader_mapping file_extension of
        None \<Rightarrow> Inr []
      | Some loader_class \<Rightarrow>
          (let loader =
             (if file_extension = ''.json'' then
                \<lparr>loader_cls = loader_class, loader_path = path file_path,
                 jq_schema = Some ''.'', text_content = Some False\<rparr>
              else if file_extension = ''.csv'' then
                \<lparr>loader_cls = loader_class, loader_path = path file_path,
                 jq_schema = None, text_content = None\<rparr>
              else
                \<lparr>loader_cls = loader_class, loader_path = path file_path,
                 jq_schema = None, text_content = None\<rparr>)
           in loader_load lib loader (content file_path)))"

text \<open>
  \<open>Path(doc.metadata.get('source', '')).suffix.lower()\<close>; \<open>Path\<close> raises \<open>TypeError\<close> on
  a value that is not a string.
\<close>

definition source_extension :: "document \<Rightarrow> exc + string" where
  "source_extension doc =
     (case dict_get_default (metadata doc) ''source'' (JStr []) of
        JStr source \<Rightarrow> Inr (lower (path_suffix source))
      | _ \<Rightarrow> Inl (Exc ''TypeError'' ''expected str, bytes or os.PathLike object''))"

text \<open>\<open>AdvancedTextSplitter.split_documents_by_type\<close>.\<close>

fun split_documents_by_type :: "library \<Rightarrow> document list \<Rightarrow> exc + document list" where
  "split_documents_by_type lib [] = Inr []"
| "split_documents_by_type lib (doc # documents) =
     (case source_extension doc of
        Inl e \<Rightarrow> Inl e
      | Inr file_extension \<Rightarrow>
          (case (if file_extension = ''.md'' then markdown_split lib doc
                 else default_split lib doc) of
             Inl e \<Rightarrow> Inl e
           | Inr chunks \<Rightarrow>
               (case split_documents_by_type lib documents of
                  Inl e \<Rightarrow> Inl e
                | Inr split_docs \<Rightarrow> Inr (chunks @ split_docs))))"

section \<open>The vector store (src/vector_store/vector_store_manager.py)\<close>

text \<open>
  \<open>VectorStoreManager.add_documents\<close>. \<open>vector_store\<close> is \<open>None\<close> or the documents the
  store holds; \<open>kind\<close> is \<open>settings.VECTOR_STORE\<close>. The result is the new
  \<open>vector_store\<close> and the exception raised, if any.
\<close>

definition add_documents ::
    "library \<Rightarrow> string \<Rightarrow> document list option \<Rightarrow> document list
       \<Rightarrow> document list option \<times> exc option" where
  "add_documents lib kind vector_store documents =
     (if documents = [] then (vector_store, None)
      else if kind = ''chroma'' then
        (case vector_store of
           None \<Rightarrow> (None, Some (Exc ''AttributeError'' ''NoneType has no attribute add_documents''))
         | Some held \<Rightarrow>
             (case store_add_raises lib documents of
                Some e \<Rightarrow> (vector_store, Some e)
              | None \<Rightarrow> (Some (held @ documents), None)))
      else if kind = ''faiss'' then
        (case (case vector_store of
                 None \<Rightarrow>
                   (case store_from_raises lib documents of
                      Some e \<Rightarrow> (None, Some e)
                    | None \<Rightarrow> (Some documents, None))
               | Some held \<Rightarrow>
                   (case store_add_raises lib documents of
                      Some e \<Rightarrow> (vector_store, Some e)
                    | None \<Rightarrow> (Some (held @ documents), None))) of
           (vs, Some e) \<Rightarrow> (vs, Some e)
         | (vs, None) \<Rightarrow> (vs, store_save_raises lib))
      else (vector_store, None))"

section \<open>The query endpoint (src/api/main.py, src/agents/simple_qa_agent.py)\<close>

record QueryRequest =
  question :: string
  use_conversation :: bool

record QueryResponse =
  answer :: string
  sources :: "(string \<times> json) list list"
  query_processing_time :: real

text \<open>
  \<open>SimpleQAAgent\<close>: \<open>retriever.invoke\<close> and \<open>chain.invoke\<close> are calls of the provider.
\<close>

record agent =
  retriever_invoke :: "string \<Rightarrow> exc + document list"
  chain_invoke :: "string \<Rightarrow> exc + string"

record qa_result =
  result_answer :: string
  source_documents :: "document list"

text \<open>\<open>SimpleQAAgent.query\<close>.\<close>

definition query :: "agent \<Rightarrow> string \<Rightarrow> bool \<Rightarrow> exc + qa_result" where
  "query ai_agent q conv =
     (case retriever_invoke ai_agent q of
        Inl e \<Rightarrow> Inl e
      | Inr docs \<Rightarrow>
          (case chain_invoke ai_agent q of
             Inl e \<Rightarrow> Inl e
           | Inr ans \<Rightarrow> Inr \<lparr>result_answer = ans, source_documents = docs\<rparr>))"

text \<open>
  What an endpoint answers when it does not return: an \<open>HTTPException\<close> it raised, or an
  exception that left it unhandled.
\<close>

datatype http_error = HTTPException nat string | Unhandled exc

text \<open>
  The JSON body sent for a \<open>QueryResponse\<close>: the fields the class declares, in the
  order it declares them.
\<close>

definition response_json :: "QueryResponse \<Rightarrow> json" where
  "response_json r =
     JObject [(''answer'', JStr (answer r)),
              (''sources'', JArray (map JObject (sources r))),
              (''processing_time'', JFloat (query_processing_time r))]"

text \<open>The dict appended to \<open>sources\<close> for one retrieved document.\<close>

definition source_entry :: "document \<Rightarrow> (string \<times> json) list" where
  "source_entry doc =
     [(''content'',
         JStr (if length (page_content doc) > 200 then take 200 (page_content doc) @ ''...''
               else page_content doc)),
      (''source'', dict_get_default (metadata doc) ''source'' (JStr ''Unknown'')),
      (''page'', dict_get_default (metadata doc) ''page'' JNull)]"

text \<open>
  \<open>query_documents\<close>; \<open>start_time\<close> and \<open>end_time\<close> are the two readings of
  \<open>time.time()\<close>.
\<close>

definition query_documents ::
    "agent option \<Rightarrow> real \<Rightarrow> real \<Rightarrow> QueryRequest \<Rightarrow> http_error + QueryResponse" where
  "query_documents ai_agent start_time end_time request =
     (case ai_agent of
        None \<Rightarrow>
          Inl (HTTPException 503 ''AI Agent not initialized. Agent imports need to be fixed.'')
      | Some ag \<Rightarrow>
          (case query ag (question request) (use_conversation request) of
             Inl e \<Rightarrow> Inl (Unhandled e)
           | Inr result \<Rightarrow>
               Inr \<lparr>answer = result_answer result,
                    sources = map source_entry (source_documents result),
                    query_processing_time = end_time - start_time\<rparr>))"

section \<open>The sync endpoint (src/api/main.py)\<close>

record SyncResponse =
  status :: string
  total_files_in_folder :: nat
  new_files_processed :: nat
  already_processed :: nat
  failed :: nat
  processed_files :: "string list"
  failed_files :: "(string \<times> string) list list"
  processing_time :: real

text \<open>
  What the endpoint reads and writes: the entries of the upload directory in the order
  \<open>glob\<close> yields them (file names are matched case-sensitively, as on POSIX), the
  tracking file, and the \<open>vector_store\<close> of the \<open>vector_store_manager\<close>. The upload
  directory exists or \<open>mkdir\<close> creates it.
\<close>

record system =
  upload_files :: "file_entry list"
  tracking_state :: tracking_file
  vector_store :: "document list option"

definition supported_extensions :: "string list" where
  "supported_extensions = [''.pdf'', ''.txt'', ''.docx'', ''.doc'', ''.md'', ''.csv'', ''.json'']"

text \<open>\<open>upload_dir.glob(f"*{ext}")\<close>: the entries whose name ends with \<open>ext\<close>.\<close>

definition glob_ext :: "file_entry list \<Rightarrow> string \<Rightarrow> file_entry list" where
  "glob_ext upload_dir ext = filter (\<lambda>f. suffix ext (path_name (path f))) upload_dir"

text \<open>\<open>all_files\<close>: the globs of the seven extensions, one after the other, without the
  tracking file.\<close>

definition scan_all_files :: "file_entry list \<Rightarrow> file_entry list" where
  "scan_all_files upload_dir =
     filter (\<lambda>f. path_name (path f) \<noteq> ''.processed_files.json'')
       (concat (map (glob_ext upload_dir) supported_extensions))"

text \<open>
  The first loop: \<open>new_files\<close> and \<open>already_processed_files\<close>. It is outside every
  \<open>try\<close>, so an exception of \<open>get_file_info\<close> or \<open>is_file_processed\<close> leaves the endpoint.
\<close>

fun identify_new_files ::
    "library \<Rightarrow> json \<Rightarrow> file_entry list \<Rightarrow> exc + (file_entry list \<times> file_entry list)" where
  "identify_new_files lib processed_tracking [] = Inr ([], [])"
| "identify_new_files lib processed_tracking (file_path # rest) =
     (case get_file_info (isoformat_now lib (path file_path)) file_path of
        Inl e \<Rightarrow> Inl e
      | Inr file_info \<Rightarrow>
          (case is_file_processed file_path file_info processed_tracking of
             Inl e \<Rightarrow> Inl e
           | Inr done \<Rightarrow>
               (case identify_new_files lib processed_tracking rest of
                  Inl e \<Rightarrow> Inl e
                | Inr (new_files, already_processed_files) \<Rightarrow>
                    if \<not> done then Inr (file_path # new_files, already_processed_files)
                    else Inr (new_files, file_path # already_processed_files))))"

text \<open>
  The body of the inner \<open>try\<close> for one new file: how it ends, and the \<open>vector_store\<close> it
  leaves behind. It ends with the file tracked (and then \<open>processed_tracking\<close> is the
  updated ledger), without documents, or with an exception; the assignment
  \<open>processed_tracking[str(file_path)] = file_info\<close> raises when the ledger is no dict.
\<close>

datatype outcome = Tracked json | NoDocuments | Raised exc

definition ingest ::
    "library \<Rightarrow> string \<Rightarrow> document list option \<Rightarrow> json \<Rightarrow> file_entry
       \<Rightarrow> document list option \<times> outcome" where
  "ingest lib kind store processed_tracking file_path =
     (case load_single_file lib file_path of
        Inl e \<Rightarrow> (store, Raised e)
      | Inr documents \<Rightarrow>
          if documents \<noteq> [] then
            (case split_documents_by_type lib documents of
               Inl e \<Rightarrow> (store, Raised e)
             | Inr split_documents \<Rightarrow>
                 (case add_documents lib kind store split_documents of
                    (store', Some e) \<Rightarrow> (store', Raised e)
                  | (store', None) \<Rightarrow>
                      (case get_file_info (isoformat_now lib (path file_path)) file_path of
                         Inl e \<Rightarrow> (store', Raised e)
                       | Inr file_info \<Rightarrow>
                           (case py_setitem processed_tracking (path file_path)
                                   (info_json file_info) of
                              Inl e \<Rightarrow> (store', Raised e)
                            | Inr processed_tracking' \<Rightarrow>
                                (store', Tracked processed_tracking')))))
          else (store, NoDocuments))"

text \<open>The variables the second loop updates.\<close>

record sync_state =
  acc_tracking :: json
  acc_vector_store :: "document list option"
  acc_processed_files :: "string list"
  acc_failed_files :: "(string \<times> string) list list"

definition failure_entry :: "file_entry \<Rightarrow> string \<Rightarrow> (string \<times> string) list" where
  "failure_entry file_path msg = [(''file'', path_name (path file_path)), (''error'', msg)]"

text \<open>One iteration of the second loop: the \<open>try\<close> with its two ways of recording a failure.\<close>

definition process_new_file :: "library \<Rightarrow> string \<Rightarrow> sync_state \<Rightarrow> file_entry \<Rightarrow> sync_state" where
  "process_new_file lib kind s file_path =
     (case ingest lib kind (acc_vector_store s) (acc_tracking s) file_path of
        (store', Tracked processed_tracking') \<Rightarrow>
          s\<lparr>acc_vector_store := store',
            acc_tracking := processed_tracking',
            acc_processed_files := acc_processed_files s @ [path_name (path file_path)]\<rparr>
      | (store', NoDocuments) \<Rightarrow>
          s\<lparr>acc_vector_store := store',
            acc_failed_files :=
              acc_failed_files s @ [failure_entry file_path ''No documents extracted'']\<rparr>
      | (store', Raised e) \<Rightarrow>
          s\<lparr>acc_vector_store := store',
            acc_failed_files := acc_failed_files s @ [failure_entry file_path (exc_str e)]\<rparr>)"

text \<open>The second loop, \<open>for file_path in new_files\<close>.\<close>

definition process_loop :: "library \<Rightarrow> string \<Rightarrow> sync_state \<Rightarrow> file_entry list \<Rightarrow> sync_state" where
  "process_loop lib kind s new_files = foldl (process_new_file lib kind) s new_files"

text \<open>The variables as the second loop finds them.\<close>

definition initial_state :: "json \<Rightarrow> system \<Rightarrow> sync_state" where
  "initial_state processed_tracking sys =
     \<lparr>acc_tracking = processed_tracking, acc_vector_store = vector_store sys,
      acc_processed_files = [], acc_failed_files = []\<rparr>"

text \<open>
  \<open>if new_files:\<close> with the outer \<open>try\<close>: building the splitter may raise, which becomes
  the \<open>HTTPException\<close> with status 500; the loop and the save raise nothing.
\<close>

definition process_new_files ::
    "library \<Rightarrow> string \<Rightarrow> tracking_file \<Rightarrow> sync_state \<Rightarrow> file_entry list
       \<Rightarrow> http_error + (sync_state \<times> tracking_file)" where
  "process_new_files lib kind tracking_file s new_files =
     (if new_files \<noteq> [] then
        (case text_splitter_init lib of
           Some e \<Rightarrow> Inl (HTTPException 500 (''Error processing files: '' @ exc_str e))
         | None \<Rightarrow>
             (let s' = process_loop lib kind s new_files
              in Inr (s', save_processed_files_tracking lib tracking_file (acc_tracking s'))))
      else Inr (s, tracking_file))"

text \<open>The \<open>SyncResponse\<close> the endpoint builds from its variables.\<close>

definition sync_response ::
    "real \<Rightarrow> real \<Rightarrow> file_entry list \<Rightarrow> file_entry list \<Rightarrow> sync_state \<Rightarrow> SyncResponse" where
  "sync_response start_time end_time all_files already_processed_files s =
     \<lparr>status = ''success'',
      total_files_in_folder = length all_files,
      new_files_processed = length (acc_processed_files s),
      already_processed = length already_processed_files,
      failed = length (acc_failed_files s),
      processed_files = acc_processed_files s,
      failed_files = acc_failed_files s,
      processing_time = end_time - start_time\<rparr>"

text \<open>\<open>sync_upload_folder\<close>: the response and what the endpoint leaves behind.\<close>

definition sync_upload_folder ::
    "library \<Rightarrow> string \<Rightarrow> real \<Rightarrow> real \<Rightarrow> system \<Rightarrow> http_error + (SyncResponse \<times> system)" where
  "sync_upload_folder lib kind start_time end_time sys =
     (case load_processed_files_tracking lib (tracking_state sys) of
        Inl e \<Rightarrow> Inl (Unhandled e)
      | Inr processed_tracking \<Rightarrow>
          (let all_files = scan_all_files (upload_files sys) in
           case identify_new_files lib processed_tracking all_files of
             Inl e \<Rightarrow> Inl (Unhandled e)
           | Inr (new_files, already_processed_files) \<Rightarrow>
               (case process_new_files lib kind (tracking_state sys)
                       (initial_state processed_tracking sys) new_files of
                  Inl err \<Rightarrow> Inl err
                | Inr (s, tracking_file') \<Rightarrow>
                    Inr (sync_response start_time end_time all_files already_processed_files s,
                         sys\<lparr>tracking_state := tracking_file',
                             vector_store := acc_vector_store s\<rparr>))))"

section \<open>What the sync endpoint is to do, in terms of the calls it makes\<close>

text \<open>
  A file whose size and modification time match its ledger record: the ledger is a dict
  that holds a dict for the path, and the \<open>size\<close> and \<open>modified\<close> stored there equal
  what \<open>stat\<close> reports now.
\<close>

definition matches_ledger :: "json \<Rightarrow> file_entry \<Rightarrow> bool" where
  "matches_ledger tracking_data f =
     (case tracking_data of
        JObject items \<Rightarrow>
          (case (map_of items (path f), stat f) of
             (Some (JObject d), Inr st) \<Rightarrow>
               num_val (dict_get d ''size'') = Some (of_int (st_size st)) \<and>
               num_val (dict_get d ''modified'') = Some (st_mtime st)
           | _ \<Rightarrow> False)
      | _ \<Rightarrow> False)"








section \<open>Example inputs\<close>

definition demo_ledger :: json where
  "demo_ledger =
     JObject [(''data/uploads/report.pdf'',
       JObject [(''size'', JInt 9), (''modified'', JFloat 1700000000.5),
                (''processed_at'', JStr ''2026-01-01T10:00:00'')])]"

text \<open>
  A library in which a PDF without its header cannot be read, an empty CSV file has no
  rows, every other file is one document, the Markdown splitter fails, and the vector
  store refuses one batch.
\<close>

definition demo_library :: library where
  "demo_library =
     \<lparr>json_load = (\<lambda>text. if text = ''ledger'' then Inr demo_ledger
                            else if text = ''[]'' then Inr (JArray [])
                            else Inl (Exc ''JSONDecodeError'' ''Expecting value'')),
      json_dump = (\<lambda>d. if d = demo_ledger then ''ledger''
                         else if d = JArray [] then ''[]'' else ''updated''),
      loader_load = (\<lambda>l bytes.
         if loader_cls l = PyPDFLoader \<and> take 4 bytes \<noteq> ''%PDF''
         then Inl (Exc ''PdfReadError'' ''invalid pdf header'')
         else if loader_cls l = CSVLoader \<and> bytes = [] then Inr []
         else Inr [\<lparr>page_content = bytes, metadata = [(''source'', JStr (loader_path l))]\<rparr>]),
      text_splitter_init = None,
      markdown_split = (\<lambda>d. Inl (Exc ''RuntimeError'' ''markdown splitter failed'')),
      default_split = (\<lambda>d. Inr [d]),
      store_add_raises = (\<lambda>ds.
         if map page_content ds = [''a,b'']
         then Some (Exc ''RuntimeError'' ''embedding service unavailable'') else None),
      store_from_raises = (\<lambda>ds. None),
      store_save_raises = None,
      isoformat_now = (\<lambda>p. ''2026-11-04T09:00:00''),
      tracking_write_raises = None\<rparr>"

definition report_pdf :: file_entry where
  "report_pdf =
     \<lparr>path = ''data/uploads/report.pdf'',
      stat = Inr \<lparr>st_isreg = True, st_size = 9, st_mtime = 1700000000.5\<rparr>,
      content = ''%PDF-1.7a'',
      unlink_raises = None\<rparr>"

text \<open>The same path, size and modification time, other bytes.\<close>

definition report_pdf_rewritten :: file_entry where
  "report_pdf_rewritten =
     \<lparr>path = ''data/uploads/report.pdf'',
      stat = Inr \<lparr>st_isreg = True, st_size = 9, st_mtime = 1700000000.5\<rparr>,
      content = ''%PDF-1.7b'',
      unlink_raises = None\<rparr>"

definition broken_pdf :: file_entry where
  "broken_pdf =
     \<lparr>path = ''data/uploads/scan.pdf'',
      stat = Inr \<lparr>st_isreg = True, st_size = 5, st_mtime = 1700000300\<rparr>,
      content = ''junk!'',
      unlink_raises = None\<rparr>"

definition notes_txt :: file_entry where
  "notes_txt =
     \<lparr>path = ''data/uploads/notes.txt'',
      stat = Inr \<lparr>st_isreg = True, st_size = 5, st_mtime = 1700000200\<rparr>,
      content = ''hello'',
      unlink_raises = None\<rparr>"

definition archive_zip :: file_entry where
  "archive_zip =
     \<lparr>path = ''data/uploads/backup.tar.ZIP'',
      stat = Inr \<lparr>st_isreg = True, st_size = 2, st_mtime = 1700000100\<rparr>,
      content = ''PK'',
      unlink_raises = None\<rparr>"

text \<open>Entries of an upload directory looked at when the clock reads 3000000.\<close>

definition fresh_file :: file_entry where
  "fresh_file =
     \<lparr>path = ''data/uploads/new.pdf'',
      stat = Inr \<lparr>st_isreg = True, st_size = 4, st_mtime = 2999000\<rparr>,
      content = ''%PDF'',
      unlink_raises = None\<rparr>"

definition old_file :: file_entry where
  "old_file =
     \<lparr>path = ''data/uploads/old.csv'',
      stat = Inr \<lparr>st_isreg = True, st_size = 3, st_mtime = 1000\<rparr>,
      content = ''a,b'',
      unlink_raises = None\<rparr>"

definition old_subdir :: file_entry where
  "old_subdir =
     \<lparr>path = ''data/uploads/archive'',
      stat = Inr \<lparr>st_isreg = False, st_size = 4096, st_mtime = 1000\<rparr>,
      content = [],
      unlink_raises = Some (OSError 21 ''IsADirectoryError'' ''Is a directory'')\<rparr>"

definition locked_old_file :: file_entry where
  "locked_old_file =
     \<lparr>path = ''data/uploads/old.txt'',
      stat = Inr \<lparr>st_isreg = True, st_size = 12, st_mtime = 1000\<rparr>,
      content = ''hello world!'',
      unlink_raises = Some (OSError 13 ''PermissionError'' ''Permission denied'')\<rparr>"

text \<open>A symbolic link that points to itself, and one into a directory that may not be
  searched.\<close>

definition looping_link :: file_entry where
  "looping_link =
     \<lparr>path = ''data/uploads/loop'',
      stat = Inl (OSError 40 ''OSError'' ''Too many levels of symbolic links''),
      content = [],
      unlink_raises = None\<rparr>"

definition private_link :: file_entry where
  "private_link =
     \<lparr>path = ''data/uploads/private'',
      stat = Inl (OSError 13 ''PermissionError'' ''Permission denied''),
      content = [],
      unlink_raises = None\<rparr>"

definition demo_agent :: agent where
  "demo_agent =
     \<lparr>retriever_invoke = (\<lambda>q. Inr
        [\<lparr>page_content = replicate 250 CHR ''a'',
          metadata = [(''source'', JStr ''data/uploads/report.pdf''), (''page'', JInt 3)]\<rparr>,
         \<lparr>page_content = ''hello'', metadata = []\<rparr>]),
      chain_invoke = (\<lambda>q. Inr ''forty-two'')\<rparr>"

definition demo_request :: QueryRequest where
  "demo_request = \<lparr>question = ''why?'', use_conversation = False\<rparr>"

definition demo_response :: QueryResponse where
  "demo_response =
     \<lparr>answer = ''forty-two'',
      sources =
        [[(''content'', JStr (replicate 200 CHR ''a'' @ ''...'')),
          (''source'', JStr ''data/uploads/report.pdf''), (''page'', JInt 3)],
         [(''content'', JStr ''hello''), (''source'', JStr ''Unknown''), (''page'', JNull)]],
      query_processing_time = 2.5\<rparr>"

text \<open>
  An upload directory with a file the ledger knows, a PDF that cannot be read, a new
  text file and a file no loader is mapped to.
\<close>

definition demo_system :: system where
  "demo_system =
     \<lparr>upload_files = [report_pdf_rewritten, broken_pdf, notes_txt, archive_zip],
      tracking_state = Holds ''ledger'',
      vector_store = Some []\<rparr>"

definition notes_document :: document where
  "notes_document =
     \<lparr>page_content = ''hello'', metadata = [(''source'', JStr ''data/uploads/notes.txt'')]\<rparr>"

definition readme_md :: file_entry where
  "readme_md =
     \<lparr>path = ''data/uploads/readme.md'',
      stat = Inr \<lparr>st_isreg = True, st_size = 4, st_mtime = 1700000400\<rparr>,
      content = ''# hi'',
      unlink_raises = None\<rparr>"

definition data_csv :: file_entry where
  "data_csv =
     \<lparr>path = ''data/uploads/data.csv'',
      stat = Inr \<lparr>st_isreg = True, st_size = 3, st_mtime = 1700000500\<rparr>,
      content = ''a,b'',
      unlink_raises = None\<rparr>"



definition notes_info :: file_info where
  "notes_info =
     \<lparr>size_info = 5, modified = 1700000200, processed_at = ''2026-11-04T09:00:00''\<rparr>"

definition updated_ledger :: json where
  "updated_ledger =
     JObject [(''data/uploads/report.pdf'',
       JObject [(''size'', JInt 9), (''modified'', JFloat 1700000000.5),
                (''processed_at'', JStr ''2026-01-01T10:00:00'')]),
      (''data/uploads/notes.txt'',
       JObject [(''size'', JInt 5), (''modified'', JFloat 1700000200),
                (''processed_at'', JStr ''2026-11-04T09:00:00'')])]"



definition demo_sync_response :: SyncResponse where
  "demo_sync_response =
     \<lparr>status = ''success'',
      total_files_in_folder = 3,
      new_files_processed = 1,
      already_processed = 1,
      failed = 1,
      processed_files = [''notes.txt''],
      failed_files = [[(''file'', ''scan.pdf''), (''error'', ''invalid pdf header'')]],
      processing_time = 3\<rparr>"

section \<open>Properties of the ledger\<close>

lemma get_file_info_Inr:
  "get_file_info now f = Inr info \<longleftrightarrow>
     (\<exists>st. stat f = Inr st \<and>
           info = \<lparr>size_info = st_size st, modified = st_mtime st, processed_at = now\<rparr>)"
  by (auto simp: get_file_info_def split: sum.splits)

lemma is_file_processed_dict:
  "is_file_processed f info (JObject items) =
     (case map_of items (path f) of
        None \<Rightarrow> Inr False
      | Some tracked_info \<Rightarrow>
          (case tracked_info of
             JObject d \<Rightarrow>
               Inr (py_eq_num (dict_get d ''size'') (of_int (size_info info)) \<and>
                    py_eq_num (dict_get d ''modified'') (modified info))
           | _ \<Rightarrow> Inl (Exc ''AttributeError'' ''object has no attribute get'')))"
proof (cases "map_of items (path f)")
  case None
  then have "path f \<notin> set (map fst items)"
    by (simp add: map_of_eq_None_iff)
  with None show ?thesis
    by (simp add: is_file_processed_def py_contains_def)
next
  case (Some t)
  then have "path f \<in> set (map fst items)"
    by (metis map_of_eq_None_iff option.distinct(1) set_map)
  with Some show ?thesis
    by (simp add: is_file_processed_def py_contains_def py_getitem_def)
qed

lemma is_file_processed_no_dict:
  assumes "\<And>items. tracking_data \<noteq> JObject items"
  shows "is_file_processed f info tracking_data \<noteq> Inr True"
  using assms
  by (cases tracking_data)
     (auto simp: is_file_processed_def py_contains_def py_getitem_def Let_def split: if_splits)

lemma is_file_processed_matches:
  assumes "get_file_info now f = Inr info"
  shows "is_file_processed f info tracking_data = Inr True \<longleftrightarrow> matches_ledger tracking_data f"
proof (cases "\<exists>items. tracking_data = JObject items")
  case True
  then obtain items where t: "tracking_data = JObject items" by blast
  from assms show ?thesis
    unfolding t is_file_processed_dict
    by (auto simp: get_file_info_Inr matches_ledger_def py_eq_num_def
          split: option.splits json.splits)
next
  case False
  then have n: "\<And>items. tracking_data \<noteq> JObject items" by blast
  from False have "\<not> matches_ledger tracking_data f"
    by (cases tracking_data) (simp_all add: matches_ledger_def)
  with is_file_processed_no_dict [OF n, of f info] show ?thesis by simp
qed

text \<open>
  C1. For every path, current file information and ledger, \<open>is_file_processed\<close> returns
  \<open>True\<close> if and only if the ledger is a dict that holds a record for the path, the size
  stored in the record equals the file's current size and the modification time stored
  in the record equals the file's current modification time. Equality is Python's \<open>==\<close>
  on numbers; a record that is not a dict makes the function raise, which is not
  returning \<open>True\<close>, and so does a ledger that is no dict.
\<close>

theorem is_file_processed_iff:
  "is_file_processed file_path current_info tracking_data = Inr True \<longleftrightarrow>
     (\<exists>items d. tracking_data = JObject items \<and>
          map_of items (path file_path) = Some (JObject d) \<and>
          num_val (dict_get d ''size'') = Some (of_int (size_info current_info)) \<and>
          num_val (dict_get d ''modified'') = Some (modified current_info))"
proof (cases "\<exists>items. tracking_data = JObject items")
  case True
  then obtain items where t: "tracking_data = JObject items" by blast
  show ?thesis
    unfolding t is_file_processed_dict
    by (auto simp: py_eq_num_def split: option.splits json.splits)
next
  case False
  then have n: "\<And>items. tracking_data \<noteq> JObject items" by blast
  from False is_file_processed_no_dict [OF n, of file_path current_info]
  show ?thesis by auto
qed

theorem is_file_processed_iff_witness:
  "is_file_processed report_pdf
     \<lparr>size_info = 9, modified = 1700000000.5, processed_at = ''2026-11-04T09:00:00''\<rparr>
     demo_ledger = Inr True \<and>
   is_file_processed notes_txt
     \<lparr>size_info = 5, modified = 1700000200, processed_at = ''2026-11-04T09:00:00''\<rparr>
     demo_ledger \<noteq> Inr True \<and>
   is_file_processed report_pdf
     \<lparr>size_info = 10, modified = 1700000000.5, processed_at = ''2026-11-04T09:00:00''\<rparr>
     demo_ledger \<noteq> Inr True"
  using is_file_processed_iff [of report_pdf
          "\<lparr>size_info = 9, modified = 1700000000.5, processed_at = ''2026-11-04T09:00:00''\<rparr>" demo_ledger]
        is_file_processed_iff [of notes_txt
          "\<lparr>size_info = 5, modified = 1700000200, processed_at = ''2026-11-04T09:00:00''\<rparr>" demo_ledger]
        is_file_processed_iff [of report_pdf
          "\<lparr>size_info = 10, modified = 1700000000.5, processed_at = ''2026-11-04T09:00:00''\<rparr>" demo_ledger]
  by (simp add: demo_ledger_def report_pdf_def notes_txt_def dict_get_def)

text \<open>
  C10, as the code has it. When \<open>tracking_file.exists()\<close> does not raise, loading the
  ledger raises nothing. It returns the value \<open>json.load\<close> parsed when the tracking file
  exists and \<open>json.load\<close> succeeds on it; it returns the empty mapping when the file does
  not exist, when it cannot be opened and when parsing fails; and against the empty
  mapping every file is reported as not processed.
\<close>

theorem load_tracking_amended:
  assumes "tracking_file_exists tf = Inr present"
  shows "(\<exists>data. load_processed_files_tracking lib tf = Inr data) \<and>
   (tf = Holds text \<and> json_load lib text = Inr parsed \<longrightarrow>
      load_processed_files_tracking lib tf = Inr parsed) \<and>
   (tf = Absent \<longrightarrow> load_processed_files_tracking lib tf = Inr (JObject [])) \<and>
   (tf = Unreadable e \<or> (tf = Holds text \<and> json_load lib text = Inl e) \<longrightarrow>
      load_processed_files_tracking lib tf = Inr (JObject []) \<and>
      is_file_processed file_path current_info (JObject []) = Inr False)"
  using assms
  by (auto simp: load_processed_files_tracking_def tracking_file_exists_def read_tracking_def
        is_file_processed_def py_contains_def
        split: tracking_file.splits sum.splits)

theorem load_tracking_amended_witness:
  "tracking_file_exists (Holds ''ledger'') = Inr True \<and>
   tracking_file_exists Absent = Inr False \<and>
   tracking_file_exists (Unreadable (OSError 13 ''PermissionError'' ''denied'')) = Inr True \<and>
   tracking_file_exists (Holds ''{bad'') = Inr True \<and>
   load_processed_files_tracking demo_library (Holds ''ledger'') = Inr demo_ledger \<and>
   load_processed_files_tracking demo_library Absent = Inr (JObject []) \<and>
   load_processed_files_tracking demo_library
     (Unreadable (OSError 13 ''PermissionError'' ''denied'')) = Inr (JObject []) \<and>
   load_processed_files_tracking demo_library (Holds ''{bad'') = Inr (JObject []) \<and>
   is_file_processed report_pdf
     \<lparr>size_info = 9, modified = 1700000000.5, processed_at = []\<rparr> (JObject []) = Inr False"
proof -
  have e: "tracking_file_exists (Holds ''ledger'') = Inr True"
    "tracking_file_exists Absent = Inr False"
    "tracking_file_exists (Unreadable (OSError 13 ''PermissionError'' ''denied'')) = Inr True"
    "tracking_file_exists (Holds ''{bad'') = Inr True"
    by (simp_all add: tracking_file_exists_def)
  show ?thesis
    using e
      load_tracking_amended [OF e(1), of demo_library "''ledger''" demo_ledger]
      load_tracking_amended [OF e(2), of demo_library]
      load_tracking_amended [OF e(3), of demo_library _ _
        "OSError 13 ''PermissionError'' ''denied''" report_pdf
        "\<lparr>size_info = 9, modified = 1700000000.5, processed_at = []\<rparr>"]
      load_tracking_amended [OF e(4), of demo_library "''{bad''" _
        "Exc ''JSONDecodeError'' ''Expecting value''"]
    by (simp add: demo_library_def)
qed

text \<open>
  C10 as stated does not hold: \<open>exists()\<close> is called outside the \<open>try\<close>, and when it
  raises (the upload directory may not be searched) so does the function; and a tracking
  file that holds valid JSON other than an object is returned as parsed, here a list,
  not a mapping.
\<close>

theorem load_tracking_counterexample:
  "load_processed_files_tracking demo_library
     (ExistsRaises (OSError 13 ''PermissionError'' ''Permission denied'')) =
     Inl (OSError 13 ''PermissionError'' ''Permission denied'') \<and>
   load_processed_files_tracking demo_library (Holds ''[]'') = Inr (JArray [])"
  by (simp add: load_processed_files_tracking_def tracking_file_exists_def read_tracking_def
        demo_library_def)

lemma identify_new_files_filter:
  "identify_new_files lib tracking_data files = Inr (new_files, already) \<Longrightarrow>
     new_files = filter (\<lambda>f. \<not> matches_ledger tracking_data f) files \<and>
     already = filter (matches_ledger tracking_data) files"
proof (induction files arbitrary: new_files already)
  case Nil
  then show ?case by simp
next
  case (Cons f fs)
  from Cons.prems obtain info hit new' already' where
    info: "get_file_info (isoformat_now lib (path f)) f = Inr info" and
    hit: "is_file_processed f info tracking_data = Inr hit" and
    rest: "identify_new_files lib tracking_data fs = Inr (new', already')" and
    res: "(new_files, already) = (if \<not> hit then (f # new', already') else (new', f # already'))"
    by (auto split: sum.splits prod.splits if_splits)
  have m: "hit \<longleftrightarrow> matches_ledger tracking_data f"
    using is_file_processed_matches [OF info, of tracking_data] hit by auto
  from Cons.IH [OF rest] res m show ?case by (auto split: if_splits)
qed

lemma demo_identify:
  "identify_new_files demo_library demo_ledger [report_pdf_rewritten, broken_pdf, notes_txt] =
     Inr ([broken_pdf, notes_txt], [report_pdf_rewritten])"
  by (simp add: get_file_info_def is_file_processed_def py_contains_def py_getitem_def
        py_eq_num_def dict_get_def demo_ledger_def
        report_pdf_rewritten_def broken_pdf_def notes_txt_def)

text \<open>
  C5. The decision does not look at the bytes of the file. Two files with the same path,
  size and modification time get the same answer from \<open>is_file_processed\<close> against the
  same ledger, whatever their contents and whenever they are looked at; and when that
  answer is \<open>True\<close>, the first loop of the sync endpoint puts the file among the already
  processed ones and not among the new ones, so the sync does not ingest it again.
\<close>

theorem same_metadata_same_decision:
  assumes "path f' = path f"
    and "stat f = Inr st" and "stat f' = Inr st'"
    and "st_size st' = st_size st" and "st_mtime st' = st_mtime st"
    and "get_file_info now f = Inr info" and "get_file_info now' f' = Inr info'"
  shows "is_file_processed f' info' tracking_data = is_file_processed f info tracking_data \<and>
         (is_file_processed f info tracking_data = Inr True \<longrightarrow>
            (\<forall>lib files new_files already.
               identify_new_files lib tracking_data files = Inr (new_files, already) \<longrightarrow>
               f' \<in> set files \<longrightarrow> f' \<in> set already \<and> f' \<notin> set new_files))"
proof
  show eq: "is_file_processed f' info' tracking_data = is_file_processed f info tracking_data"
    using assms
    by (auto simp: get_file_info_Inr is_file_processed_def Let_def
          split: option.splits json.splits sum.splits)
  show "is_file_processed f info tracking_data = Inr True \<longrightarrow>
            (\<forall>lib files new_files already.
               identify_new_files lib tracking_data files = Inr (new_files, already) \<longrightarrow>
               f' \<in> set files \<longrightarrow> f' \<in> set already \<and> f' \<notin> set new_files)"
  proof (intro impI allI)
    fix lib files new_files already
    assume t: "is_file_processed f info tracking_data = Inr True"
      and i: "identify_new_files lib tracking_data files = Inr (new_files, already)"
      and m: "f' \<in> set files"
    from t eq have "is_file_processed f' info' tracking_data = Inr True" by simp
    then have "matches_ledger tracking_data f'"
      using is_file_processed_matches [OF assms(7)] by simp
    with identify_new_files_filter [OF i] m
    show "f' \<in> set already \<and> f' \<notin> set new_files" by simp
  qed
qed

theorem same_metadata_same_decision_witness:
  "content report_pdf_rewritten \<noteq> content report_pdf \<and>
   path report_pdf_rewritten = path report_pdf \<and>
   get_file_info ''2026-01-01T10:00:00'' report_pdf =
     Inr \<lparr>size_info = 9, modified = 1700000000.5, processed_at = ''2026-01-01T10:00:00''\<rparr> \<and>
   get_file_info ''2026-11-04T09:00:00'' report_pdf_rewritten =
     Inr \<lparr>size_info = 9, modified = 1700000000.5, processed_at = ''2026-11-04T09:00:00''\<rparr> \<and>
   is_file_processed report_pdf_rewritten
     \<lparr>size_info = 9, modified = 1700000000.5, processed_at = ''2026-11-04T09:00:00''\<rparr> demo_ledger =
   is_file_processed report_pdf
     \<lparr>size_info = 9, modified = 1700000000.5, processed_at = ''2026-01-01T10:00:00''\<rparr> demo_ledger \<and>
   is_file_processed report_pdf
     \<lparr>size_info = 9, modified = 1700000000.5, processed_at = ''2026-01-01T10:00:00''\<rparr> demo_ledger =
     Inr True \<and>
   identify_new_files demo_library demo_ledger [report_pdf_rewritten, broken_pdf, notes_txt] =
     Inr ([broken_pdf, notes_txt], [report_pdf_rewritten]) \<and>
   report_pdf_rewritten \<in> set [report_pdf_rewritten] \<and>
   report_pdf_rewritten \<notin> set [broken_pdf, notes_txt]"
proof -
  have p: "path report_pdf_rewritten = path report_pdf"
    by (simp add: report_pdf_def report_pdf_rewritten_def)
  have s1: "stat report_pdf = Inr \<lparr>st_isreg = True, st_size = 9, st_mtime = 1700000000.5\<rparr>"
    by (simp add: report_pdf_def)
  have s2: "stat report_pdf_rewritten = Inr \<lparr>st_isreg = True, st_size = 9, st_mtime = 1700000000.5\<rparr>"
    by (simp add: report_pdf_rewritten_def)
  have g1: "get_file_info ''2026-01-01T10:00:00'' report_pdf =
     Inr \<lparr>size_info = 9, modified = 1700000000.5, processed_at = ''2026-01-01T10:00:00''\<rparr>"
    by (simp add: get_file_info_def report_pdf_def)
  have g2: "get_file_info ''2026-11-04T09:00:00'' report_pdf_rewritten =
     Inr \<lparr>size_info = 9, modified = 1700000000.5, processed_at = ''2026-11-04T09:00:00''\<rparr>"
    by (simp add: get_file_info_def report_pdf_rewritten_def)
  have t: "is_file_processed report_pdf
     \<lparr>size_info = 9, modified = 1700000000.5, processed_at = ''2026-01-01T10:00:00''\<rparr> demo_ledger =
     Inr True"
    by (simp add: is_file_processed_def py_contains_def py_getitem_def py_eq_num_def dict_get_def
          demo_ledger_def report_pdf_def)
  have c: "content report_pdf_rewritten \<noteq> content report_pdf"
    by (simp add: report_pdf_def report_pdf_rewritten_def)
  note T = same_metadata_same_decision [OF p s1 s2 refl refl g1 g2, of demo_ledger]
  from T have e: "is_file_processed report_pdf_rewritten
     \<lparr>size_info = 9, modified = 1700000000.5, processed_at = ''2026-11-04T09:00:00''\<rparr> demo_ledger =
   is_file_processed report_pdf
     \<lparr>size_info = 9, modified = 1700000000.5, processed_at = ''2026-01-01T10:00:00''\<rparr> demo_ledger"
    by (rule conjunct1)
  from T t have A: "\<And>lib files new_files already.
      identify_new_files lib demo_ledger files = Inr (new_files, already) \<Longrightarrow>
      report_pdf_rewritten \<in> set files \<Longrightarrow>
      report_pdf_rewritten \<in> set already \<and> report_pdf_rewritten \<notin> set new_files"
    by blast
  have m0: "report_pdf_rewritten \<in> set [report_pdf_rewritten, broken_pdf, notes_txt]"
    by simp
  from A [OF demo_identify m0]
  have m1: "report_pdf_rewritten \<in> set [report_pdf_rewritten]"
    and m2: "report_pdf_rewritten \<notin> set [broken_pdf, notes_txt]"
    by blast+
  from c p g1 g2 e t demo_identify m1 m2 show ?thesis by (intro conjI)
qed

section \<open>Properties of the retention cleanup\<close>

lemma cleanup_loop_Cons:
  assumes "is_file f = Inr b"
  shows "cleanup_loop cutoff (f # fs) =
           (if stale cutoff f \<and> unlink_raises f = None
            then (path f # fst (cleanup_loop cutoff fs), snd (cleanup_loop cutoff fs))
            else (fst (cleanup_loop cutoff fs), f # snd (cleanup_loop cutoff fs)))"
proof (cases "stat f")
  case (Inl e)
  with assms show ?thesis
    by (simp add: is_file_def stale_def split: if_splits prod.splits)
next
  case (Inr st)
  with assms show ?thesis
    by (cases "unlink_raises f"; cases b) (auto simp: is_file_def stale_def Let_def split: prod.splits)
qed

lemma cleanup_loop_filter:
  assumes "\<forall>f \<in> set upload_dir. \<exists>b. is_file f = Inr b"
  shows "cleanup_loop cutoff upload_dir =
           (map path (filter (\<lambda>f. stale cutoff f \<and> unlink_raises f = None) upload_dir),
            filter (\<lambda>f. \<not> (stale cutoff f \<and> unlink_raises f = None)) upload_dir)"
  using assms
proof (induction upload_dir)
  case Nil
  then show ?case by simp
next
  case (Cons f fs)
  then obtain b where b: "is_file f = Inr b" by auto
  from Cons have ih: "cleanup_loop cutoff fs =
           (map path (filter (\<lambda>f. stale cutoff f \<and> unlink_raises f = None) fs),
            filter (\<lambda>f. \<not> (stale cutoff f \<and> unlink_raises f = None)) fs)"
    by simp
  show ?case
    unfolding cleanup_loop_Cons [OF b] ih by simp
qed

text \<open>
  C2, as the code has it. When \<open>is_file()\<close> raises for no entry of the upload directory
  (a path that is not there, a broken or a looping link does not make it raise),
  \<open>cleanup_old_files\<close> deletes exactly the regular files whose modification time is
  older than \<open>retention_days\<close> days before the current time and whose \<open>unlink\<close> does
  not raise, leaves every other entry as it is, in place, and returns the paths of the
  files it deleted, in the order of the directory listing.
\<close>

theorem cleanup_old_files_amended:
  assumes "\<forall>f \<in> set upload_dir. \<exists>b. is_file f = Inr b"
  shows "cleanup_old_files retention_days current_time upload_dir =
           (map path (filter (\<lambda>f. expired retention_days current_time f \<and> unlink_raises f = None) upload_dir),
            filter (\<lambda>f. \<not> (expired retention_days current_time f \<and> unlink_raises f = None)) upload_dir)"
  unfolding cleanup_old_files_def expired_def Let_def
  by (rule cleanup_loop_filter [OF assms])

theorem cleanup_old_files_amended_witness:
  "is_file fresh_file = Inr True \<and> is_file looping_link = Inr False \<and>
   is_file old_file = Inr True \<and> is_file old_subdir = Inr False \<and>
   is_file locked_old_file = Inr True \<and>
   cleanup_old_files 30 3000000
     [fresh_file, looping_link, old_file, old_subdir, locked_old_file] =
     ([''data/uploads/old.csv''], [fresh_file, looping_link, old_subdir, locked_old_file])"
proof -
  have i: "is_file fresh_file = Inr True" "is_file looping_link = Inr False"
    "is_file old_file = Inr True" "is_file old_subdir = Inr False"
    "is_file locked_old_file = Inr True"
    by (simp_all add: is_file_def ignored_error_def fresh_file_def looping_link_def old_file_def
          old_subdir_def locked_old_file_def)
  then have h: "\<forall>f \<in> set [fresh_file, looping_link, old_file, old_subdir, locked_old_file].
                  \<exists>b. is_file f = Inr b"
    by auto
  show ?thesis
    using i cleanup_old_files_amended [OF h, of 30 3000000]
    by (simp add: expired_def stale_def fresh_file_def looping_link_def old_file_def
          old_subdir_def locked_old_file_def)
qed

text \<open>
  C2 as stated does not hold. A regular file older than the retention period whose
  \<open>unlink\<close> raises is logged, stays in the directory and is not in the returned list.
  And when \<open>is_file()\<close> raises for an entry (a link into a directory that may not be
  searched), the loop ends there: an old file listed after it, which could be deleted,
  stays.
\<close>

theorem cleanup_old_files_counterexample:
  "expired 30 3000000 locked_old_file \<and>
   cleanup_old_files 30 3000000 [locked_old_file] = ([], [locked_old_file]) \<and>
   is_file private_link = Inl (OSError 13 ''PermissionError'' ''Permission denied'') \<and>
   expired 30 3000000 old_file \<and> unlink_raises old_file = None \<and>
   cleanup_old_files 30 3000000 [private_link, old_file] = ([], [private_link, old_file])"
  by (simp add: expired_def stale_def cleanup_old_files_def locked_old_file_def old_file_def
        private_link_def is_file_def ignored_error_def)

section \<open>Properties of the document loader\<close>

text \<open>
  C4. For every file whose extension, read without regard to the case of its letters as
  the loader reads it, is none of \<open>.pdf\<close>, \<open>.txt\<close>, \<open>.docx\<close>, \<open>.doc\<close>, \<open>.md\<close>,
  \<open>.csv\<close>, \<open>.json\<close>, \<open>_load_single_file\<close> returns the empty list of documents and
  raises nothing, whatever the library's loaders would do.
\<close>

theorem unsupported_extension_loads_nothing:
  assumes "lower (path_suffix (path file_path)) \<notin>
             {''.pdf'', ''.txt'', ''.docx'', ''.doc'', ''.md'', ''.csv'', ''.json''}"
  shows "load_single_file lib file_path = Inr []"
proof -
  have "map_of loader_mapping (lower (path_suffix (path file_path))) = None"
    using assms by (simp add: loader_mapping_def)
  then show ?thesis by (simp add: load_single_file_def Let_def)
qed

lemma archive_zip_suffix: "lower (path_suffix (path archive_zip)) = ''.zip''"
  by (simp add: archive_zip_def path_suffix_def path_name_def lower_def lower_char_def Let_def)

theorem unsupported_extension_loads_nothing_witness:
  "lower (path_suffix (path archive_zip)) \<notin>
      {''.pdf'', ''.txt'', ''.docx'', ''.doc'', ''.md'', ''.csv'', ''.json''} \<and>
   load_single_file demo_library archive_zip = Inr []"
proof -
  have h: "lower (path_suffix (path archive_zip)) \<notin>
      {''.pdf'', ''.txt'', ''.docx'', ''.doc'', ''.md'', ''.csv'', ''.json''}"
    by (simp add: archive_zip_suffix)
  show ?thesis
    using h unsupported_extension_loads_nothing [OF h, of demo_library] by simp
qed

section \<open>Properties of the query endpoint\<close>

lemma query_documents_Inr:
  assumes "query_documents ai_agent t0 t1 request = Inr response"
  obtains ag docs ans where
    "ai_agent = Some ag"
    "retriever_invoke ag (question request) = Inr docs"
    "chain_invoke ag (question request) = Inr ans"
    "response = \<lparr>answer = ans, sources = map source_entry docs, query_processing_time = t1 - t0\<rparr>"
  using assms
  by (auto simp: query_documents_def query_def split: option.splits sum.splits)

lemma demo_query:
  "query_documents (Some demo_agent) 10 12.5 demo_request = Inr demo_response"
  by (simp add: query_documents_def query_def demo_agent_def demo_request_def demo_response_def
        source_entry_def dict_get_default_def)

text \<open>
  C7. Every response of a successful \<open>POST /query/\<close> is a JSON object with exactly the
  fields \<open>answer\<close>, a string (the chain's answer), \<open>sources\<close>, a list with one element
  for each retrieved document, and \<open>processing_time\<close>, a number (the time between the
  two clock readings); and every element of \<open>sources\<close> is an object with exactly the
  fields \<open>content\<close>, a string, \<open>source\<close> and \<open>page\<close>.
\<close>

theorem query_response_shape:
  assumes "query_documents ai_agent t0 t1 request = Inr response"
  shows "\<exists>ag docs ans srcs.
           ai_agent = Some ag \<and>
           retriever_invoke ag (question request) = Inr docs \<and>
           chain_invoke ag (question request) = Inr ans \<and>
           response_json response =
             JObject [(''answer'', JStr ans), (''sources'', JArray srcs),
                      (''processing_time'', JFloat (t1 - t0))] \<and>
           length srcs = length docs \<and>
           (\<forall>s \<in> set srcs. \<exists>c src page.
              s = JObject [(''content'', JStr c), (''source'', src), (''page'', page)])"
proof -
  from assms obtain ag docs ans where
    a: "ai_agent = Some ag" and d: "retriever_invoke ag (question request) = Inr docs" and
    c: "chain_invoke ag (question request) = Inr ans" and
    r: "response = \<lparr>answer = ans, sources = map source_entry docs, query_processing_time = t1 - t0\<rparr>"
    by (rule query_documents_Inr)
  have j: "response_json response =
             JObject [(''answer'', JStr ans),
                      (''sources'', JArray (map JObject (map source_entry docs))),
                      (''processing_time'', JFloat (t1 - t0))]"
    unfolding r by (simp add: response_json_def)
  have k: "\<forall>s \<in> set (map JObject (map source_entry docs)). \<exists>c src page.
              s = JObject [(''content'', JStr c), (''source'', src), (''page'', page)]"
    by (auto simp: source_entry_def)
  have l: "length (map JObject (map source_entry docs)) = length docs"
    by simp
  from a d c j l k show ?thesis by blast
qed

theorem query_response_shape_witness:
  "query_documents (Some demo_agent) 10 12.5 demo_request = Inr demo_response \<and>
   (\<exists>ag docs ans srcs.
       Some demo_agent = Some ag \<and>
       retriever_invoke ag (question demo_request) = Inr docs \<and>
       chain_invoke ag (question demo_request) = Inr ans \<and>
       response_json demo_response =
         JObject [(''answer'', JStr ans), (''sources'', JArray srcs),
                  (''processing_time'', JFloat (12.5 - 10))] \<and>
       length srcs = length docs \<and>
       (\<forall>s \<in> set srcs. \<exists>c src page.
          s = JObject [(''content'', JStr c), (''source'', src), (''page'', page)]))"
  using demo_query query_response_shape [OF demo_query] ..

text \<open>
  C9. In every response of \<open>POST /query/\<close> there is one entry of \<open>sources\<close> for each
  retrieved document, in order; its \<open>content\<close> is the document's \<open>page_content\<close> itself
  when that has at most 200 characters, and otherwise its first 200 characters followed
  by three dots; so no \<open>content\<close> is longer than 203 characters.
\<close>

theorem sources_content_truncated:
  assumes "query_documents ai_agent t0 t1 request = Inr response"
  shows "\<exists>ag docs. ai_agent = Some ag \<and> retriever_invoke ag (question request) = Inr docs \<and>
           length (sources response) = length docs \<and>
           (\<forall>i < length docs. \<exists>c.
              map_of (sources response ! i) ''content'' = Some (JStr c) \<and>
              (length (page_content (docs ! i)) \<le> 200 \<longrightarrow> c = page_content (docs ! i)) \<and>
              (200 < length (page_content (docs ! i)) \<longrightarrow>
                 c = take 200 (page_content (docs ! i)) @ ''...'') \<and>
              length c \<le> 203)"
proof -
  from assms obtain ag docs ans where
    a: "ai_agent = Some ag" and d: "retriever_invoke ag (question request) = Inr docs" and
    r: "response = \<lparr>answer = ans, sources = map source_entry docs, query_processing_time = t1 - t0\<rparr>"
    by (rule query_documents_Inr)
  show ?thesis
    using a d unfolding r by (auto simp: source_entry_def)
qed

theorem sources_content_truncated_witness:
  "query_documents (Some demo_agent) 10 12.5 demo_request = Inr demo_response \<and>
   (\<exists>ag docs. Some demo_agent = Some ag \<and> retriever_invoke ag (question demo_request) = Inr docs \<and>
           length (sources demo_response) = length docs \<and>
           (\<forall>i < length docs. \<exists>c.
              map_of (sources demo_response ! i) ''content'' = Some (JStr c) \<and>
              (length (page_content (docs ! i)) \<le> 200 \<longrightarrow> c = page_content (docs ! i)) \<and>
              (200 < length (page_content (docs ! i)) \<longrightarrow>
                 c = take 200 (page_content (docs ! i)) @ ''...'') \<and>
              length c \<le> 203))"
  using demo_query sources_content_truncated [OF demo_query] ..

section \<open>Properties of the sync endpoint\<close>

subsection \<open>Item assignment\<close>





subsection \<open>The body of the inner try\<close>










subsection \<open>One iteration of the second loop\<close>

lemma process_new_file_cases:
  obtains
    (tracked) store' ledger' where
      "ingest lib kind (acc_vector_store s) (acc_tracking s) f = (store', Tracked ledger')"
      "process_new_file lib kind s f =
         s\<lparr>acc_vector_store := store',
           acc_tracking := ledger',
           acc_processed_files := acc_processed_files s @ [path_name (path f)]\<rparr>"
  | (nodocs) store' where
      "ingest lib kind (acc_vector_store s) (acc_tracking s) f = (store', NoDocuments)"
      "process_new_file lib kind s f =
         s\<lparr>acc_vector_store := store',
           acc_failed_files := acc_failed_files s @ [failure_entry f ''No documents extracted'']\<rparr>"
  | (raised) store' e where
      "ingest lib kind (acc_vector_store s) (acc_tracking s) f = (store', Raised e)"
      "process_new_file lib kind s f =
         s\<lparr>acc_vector_store := store',
           acc_failed_files := acc_failed_files s @ [failure_entry f (exc_str e)]\<rparr>"
proof (cases "ingest lib kind (acc_vector_store s) (acc_tracking s) f")
  case (Pair store' out)
  then show ?thesis
    by (cases out) (auto simp: process_new_file_def intro: that)
qed

lemma process_new_file_count:
  "length (acc_processed_files (process_new_file lib kind s f)) +
   length (acc_failed_files (process_new_file lib kind s f)) =
   Suc (length (acc_processed_files s) + length (acc_failed_files s))"
  by (rule process_new_file_cases [of lib kind s f]) simp_all








subsection \<open>The second loop\<close>

lemma process_loop_Nil: "process_loop lib kind s [] = s"
  by (simp add: process_loop_def)

lemma process_loop_Cons:
  "process_loop lib kind s (f # fs) = process_loop lib kind (process_new_file lib kind s f) fs"
  by (simp add: process_loop_def)


lemma process_loop_count:
  "length (acc_processed_files (process_loop lib kind s fs)) +
   length (acc_failed_files (process_loop lib kind s fs)) =
   length (acc_processed_files s) + length (acc_failed_files s) + length fs"
proof (induction fs arbitrary: s)
  case Nil
  show ?case by (simp add: process_loop_Nil)
next
  case (Cons f fs)
  show ?case
    unfolding process_loop_Cons Cons.IH using process_new_file_count [of lib kind s f] by simp
qed









subsection \<open>The endpoint\<close>

lemma sync_upload_folder_Inr:
  assumes "sync_upload_folder lib kind t0 t1 sys = Inr (resp, sys')"
  obtains tracking_data new_files already where
    "load_processed_files_tracking lib (tracking_state sys) = Inr tracking_data"
    "identify_new_files lib tracking_data (scan_all_files (upload_files sys)) = Inr (new_files, already)"
    "resp = sync_response t0 t1 (scan_all_files (upload_files sys)) already
              (process_loop lib kind (initial_state tracking_data sys) new_files)"
    "vector_store sys' =
       acc_vector_store (process_loop lib kind (initial_state tracking_data sys) new_files)"
    "tracking_state sys' =
       (if new_files = [] then tracking_state sys
        else save_processed_files_tracking lib (tracking_state sys)
               (acc_tracking (process_loop lib kind (initial_state tracking_data sys) new_files)))"
  using assms
  by (auto simp: sync_upload_folder_def process_new_files_def Let_def process_loop_Nil
        split: sum.splits prod.splits if_splits option.splits)


subsection \<open>The endpoint on the example directories\<close>

lemma demo_scan:
  "scan_all_files (upload_files demo_system) = [report_pdf_rewritten, broken_pdf, notes_txt]"
  by (simp add: demo_system_def scan_all_files_def glob_ext_def supported_extensions_def
        report_pdf_rewritten_def broken_pdf_def notes_txt_def archive_zip_def path_name_def
        suffix_to_prefix)



lemma demo_load:
  "load_processed_files_tracking demo_library (tracking_state demo_system) = Inr demo_ledger"
  by (simp add: load_processed_files_tracking_def tracking_file_exists_def read_tracking_def
        demo_library_def demo_system_def)




lemma demo_identify_scan:
  "identify_new_files demo_library demo_ledger (scan_all_files (upload_files demo_system)) =
     Inr ([broken_pdf, notes_txt], [report_pdf_rewritten])"
  unfolding demo_scan by (rule demo_identify)



lemma demo_splitter: "text_splitter_init demo_library = None"
  by (simp add: demo_library_def)

lemma demo_names:
  "path_name (path broken_pdf) = ''scan.pdf''"
  "path_name (path notes_txt) = ''notes.txt''"
  "path_name (path readme_md) = ''readme.md''"
  "path_name (path data_csv) = ''data.csv''"
  by (simp_all add: broken_pdf_def notes_txt_def readme_md_def data_csv_def path_name_def)

lemma demo_load_broken:
  "load_single_file demo_library broken_pdf = Inl (Exc ''PdfReadError'' ''invalid pdf header'')"
  by (simp add: load_single_file_def loader_mapping_def demo_library_def broken_pdf_def
        path_suffix_def path_name_def lower_def lower_char_def Let_def)

lemma demo_load_notes: "load_single_file demo_library notes_txt = Inr [notes_document]"
  by (simp add: load_single_file_def loader_mapping_def demo_library_def notes_txt_def
        notes_document_def path_suffix_def path_name_def lower_def lower_char_def Let_def)



lemma demo_split_notes: "split_documents_by_type demo_library [notes_document] = Inr [notes_document]"
  by (simp add: notes_document_def source_extension_def dict_get_default_def demo_library_def
        path_suffix_def path_name_def lower_def lower_char_def Let_def)



lemma demo_add_notes:
  "add_documents demo_library ''chroma'' (Some []) [notes_document] = (Some [notes_document], None)"
  by (simp add: add_documents_def demo_library_def notes_document_def)


lemma demo_info_notes:
  "get_file_info (isoformat_now demo_library (path notes_txt)) notes_txt = Inr notes_info"
  by (simp add: get_file_info_def demo_library_def notes_txt_def notes_info_def)

lemma demo_assign_notes:
  "py_setitem demo_ledger (path notes_txt) (info_json notes_info) = Inr updated_ledger"
  by (simp add: py_setitem_def demo_ledger_def updated_ledger_def notes_txt_def notes_info_def
        info_json_def)


lemma demo_ingest_broken:
  "ingest demo_library ''chroma'' store ledger broken_pdf =
     (store, Raised (Exc ''PdfReadError'' ''invalid pdf header''))"
  by (simp add: ingest_def demo_load_broken)

lemma demo_ingest_notes:
  "ingest demo_library ''chroma'' (Some []) demo_ledger notes_txt =
     (Some [notes_document], Tracked updated_ledger)"
  by (simp add: ingest_def demo_load_notes demo_split_notes demo_add_notes demo_info_notes
        demo_assign_notes
        del: split_documents_by_type.simps)




lemma demo_dump: "json_dump demo_library updated_ledger = ''updated''"
  "json_dump demo_library (JArray []) = ''[]''"
  by (simp_all add: demo_library_def updated_ledger_def demo_ledger_def)

lemma demo_write: "tracking_write_raises demo_library = None"
  by (simp add: demo_library_def)

lemma demo_loop:
  "process_loop demo_library ''chroma'' (initial_state demo_ledger demo_system)
     [broken_pdf, notes_txt] =
     \<lparr>acc_tracking = updated_ledger, acc_vector_store = Some [notes_document],
      acc_processed_files = [''notes.txt''],
      acc_failed_files = [[(''file'', ''scan.pdf''), (''error'', ''invalid pdf header'')]]\<rparr>"
  by (simp add: process_loop_def process_new_file_def initial_state_def demo_system_def
        demo_ingest_broken demo_ingest_notes demo_names failure_entry_def)



lemma demo_sync:
  "sync_upload_folder demo_library ''chroma'' 100 103 demo_system =
     Inr (demo_sync_response,
          demo_system\<lparr>tracking_state := Holds ''updated'', vector_store := Some [notes_document]\<rparr>)"
  apply (simp only: sync_upload_folder_def demo_load Let_def sum.case)
  apply (simp only: demo_identify_scan sum.case prod.case)
  apply (simp only: process_new_files_def demo_splitter demo_loop Let_def)
  by (simp add: demo_scan save_processed_files_tracking_def demo_write demo_dump
        sync_response_def demo_sync_response_def)



subsection \<open>Counters, failures and selection\<close>

text \<open>
  C8. In every response of \<open>POST /sync/\<close> the counters partition the scanned files:
  \<open>new_files_processed + failed + already_processed = total_files_in_folder\<close>.
\<close>

theorem sync_counters_partition:
  assumes "sync_upload_folder lib kind t0 t1 sys = Inr (resp, sys')"
  shows "new_files_processed resp + failed resp + already_processed resp =
           total_files_in_folder resp"
proof -
  from assms obtain tracking_data new_files already where
    i: "identify_new_files lib tracking_data (scan_all_files (upload_files sys)) = Inr (new_files, already)" and
    r: "resp = sync_response t0 t1 (scan_all_files (upload_files sys)) already
              (process_loop lib kind (initial_state tracking_data sys) new_files)"
    by (rule sync_upload_folder_Inr)
  have "length new_files + length already = length (scan_all_files (upload_files sys))"
    using identify_new_files_filter [OF i]
    by (simp add: sum_length_filter_compl add.commute)
  moreover have "length (acc_processed_files (process_loop lib kind (initial_state tracking_data sys) new_files)) +
        length (acc_failed_files (process_loop lib kind (initial_state tracking_data sys) new_files)) =
        length new_files"
    using process_loop_count [of lib kind "initial_state tracking_data sys" new_files]
    by (simp add: initial_state_def)
  ultimately show ?thesis
    unfolding r sync_response_def by simp
qed

theorem sync_counters_partition_witness:
  "sync_upload_folder demo_library ''chroma'' 100 103 demo_system =
     Inr (demo_sync_response,
          demo_system\<lparr>tracking_state := Holds ''updated'', vector_store := Some [notes_document]\<rparr>) \<and>
   new_files_processed demo_sync_response + failed demo_sync_response +
     already_processed demo_sync_response = total_files_in_folder demo_sync_response"
  using demo_sync sync_counters_partition [OF demo_sync] ..








end
